theory Spec2Isabelle
  imports Complex_Main
begin

section \<open>Values, errors and documents\<close>

text \<open>
  The Python sources raise and catch exceptions; here an exception is a value. The
  constructor is the exception class, the argument its message, and \<open>error_str\<close> is
  Python's \<^verbatim>\<open>str(e)\<close>. \<open>UpstreamError\<close> stands for whatever an external service
  (the embedding provider, the language model, a document parser) raises.
\<close>

datatype error =
    Exception string
  | ValueError string
  | FileNotFoundError string
  | AttributeError string
  | TypeError string
  | UpstreamError string

fun error_str :: "error \<Rightarrow> string" where
  "error_str (Exception m) = m"
| "error_str (ValueError m) = m"
| "error_str (FileNotFoundError m) = m"
| "error_str (AttributeError m) = m"
| "error_str (TypeError m) = m"
| "error_str (UpstreamError m) = m"

text \<open>
  A metadata dictionary maps string keys to values of any type; the sources store
  strings, integers and \<^verbatim>\<open>None\<close>. A langchain \<^verbatim>\<open>Document\<close> is its text and its
  metadata.
\<close>

datatype val = VStr string | VInt int | VNone

type_synonym metadata = "(string \<times> val) list"

definition metadata_get :: "metadata \<Rightarrow> string \<Rightarrow> val \<Rightarrow> val" where
  \<comment> \<open>\<^verbatim>\<open>d.get(key, default)\<close>\<close>
  "metadata_get md key dflt = (case map_of md key of None \<Rightarrow> dflt | Some v \<Rightarrow> v)"

record document =
  page_content :: string
  metadata :: metadata

section \<open>The vector index of the external library\<close>

text \<open>
  The index itself is the langchain/FAISS library, which is not part of the repository.
  It is modelled by its contract: the index is the sequence of stored vectors with their
  documents, in insertion order; texts are embedded by the embedding provider \<open>emb\<close>,
  which may fail; a query returns the \<open>k\<close> entries nearest to the query vector by squared
  Euclidean distance, nearest first, earlier insertions first among equal distances, each
  with its distance. Python floats are modelled by real numbers.
\<close>

type_synonym vec = "real list"

type_synonym embedder = "string \<Rightarrow> error + vec"

type_synonym faiss = "(vec \<times> document) list"

definition l2_distance :: "vec \<Rightarrow> vec \<Rightarrow> real" where
  "l2_distance u v = sum_list (map (\<lambda>(a, b). (a - b) * (a - b)) (zip u v))"

fun embed_documents :: "embedder \<Rightarrow> string list \<Rightarrow> error + vec list" where
  "embed_documents emb [] = Inr []"
| "embed_documents emb (t # ts) =
     (case emb t of
        Inl e \<Rightarrow> Inl e
      | Inr v \<Rightarrow> (case embed_documents emb ts of
                   Inl e \<Rightarrow> Inl e
                 | Inr vs \<Rightarrow> Inr (v # vs)))"

definition faiss_add_documents :: "embedder \<Rightarrow> document list \<Rightarrow> faiss \<Rightarrow> error + faiss" where
  "faiss_add_documents emb docs idx =
     (case embed_documents emb (map page_content docs) of
        Inl e \<Rightarrow> Inl e
      | Inr vs \<Rightarrow> Inr (idx @ zip vs docs))"

definition faiss_add_texts ::
  "embedder \<Rightarrow> string list \<Rightarrow> metadata list \<Rightarrow> faiss \<Rightarrow> error + faiss" where
  "faiss_add_texts emb texts metadatas idx =
     faiss_add_documents emb
       (map (\<lambda>(t, m). \<lparr>page_content = t, metadata = m\<rparr>) (zip texts metadatas)) idx"

definition faiss_from_texts :: "embedder \<Rightarrow> string list \<Rightarrow> metadata list \<Rightarrow> error + faiss" where
  "faiss_from_texts emb texts metadatas = faiss_add_texts emb texts metadatas []"

definition similarity_search_with_score ::
  "embedder \<Rightarrow> faiss \<Rightarrow> string \<Rightarrow> nat \<Rightarrow> error + (document \<times> real) list" where
  "similarity_search_with_score emb idx query k =
     (case emb query of
        Inl e \<Rightarrow> Inl e
      | Inr q \<Rightarrow> Inr (take k (sort_key snd (map (\<lambda>(v, d). (d, l2_distance q v)) idx))))"

text \<open>
  The state of a store object: the index in memory, the index file under the store path
  (\<open>None\<close> while there is none) and the number of times the file has been written.
\<close>

record vstate =
  store :: faiss
  persisted :: "faiss option"
  writes :: nat

definition save_local :: "vstate \<Rightarrow> vstate" where
  \<comment> \<open>\<^verbatim>\<open>self.store.save_local(self.store_path)\<close>, and Chroma's \<^verbatim>\<open>persist()\<close>\<close>
  "save_local self = self\<lparr>persisted := Some (store self), writes := Suc (writes self)\<rparr>"

text \<open>
  Writing the index file may itself fail. The outcome of one call of the library's
  \<^verbatim>\<open>save_local\<close> is either that the file now holds the index, or an error together
  with what is then under the store path: the old file, a damaged one or none.
\<close>

datatype save_outcome = Saved | SaveFailed error "faiss option"

section \<open>vector\_store/base.py\<close>

text \<open>
  The expression that \<^verbatim>\<open>FAISSVectorStore.search\<close> and \<^verbatim>\<open>ChromaVectorStore.search\<close> both
  use for \<^verbatim>\<open>relevance_score\<close>:
  \<^verbatim>\<open>float(1.0 - score) if score <= 1.0 else float((1.0 / score) if score > 0 else 0)\<close>.
\<close>

definition relevance_score_of :: "real \<Rightarrow> real" where
  "relevance_score_of score =
     (if score \<le> 1 then 1 - score else (if score > 0 then 1 / score else 0))"

record source =
  document_name :: val
  page_number :: val
  text_snippet :: string
  relevance_score :: real
  source_metadata :: metadata

definition format_source :: "document \<times> real \<Rightarrow> source" where
  "format_source r =
     (case r of (doc, score) \<Rightarrow>
        \<lparr>document_name = metadata_get (metadata doc) ''filename'' (VStr ''Unknown''),
         page_number = metadata_get (metadata doc) ''page'' VNone,
         text_snippet = page_content doc,
         relevance_score = relevance_score_of score,
         source_metadata = metadata doc\<rparr>)"

definition FAISSVectorStore_add_documents ::
  "embedder \<Rightarrow> document list \<Rightarrow> vstate \<Rightarrow> (error + nat) \<times> vstate" where
  "FAISSVectorStore_add_documents emb documents self =
     (if documents = [] then (Inr 0, self)
      else (case faiss_add_documents emb documents (store self) of
              Inl e \<Rightarrow> (Inl e, self)
            | Inr idx \<Rightarrow> (Inr (length documents), save_local (self\<lparr>store := idx\<rparr>))))"

definition FAISSVectorStore_search ::
  "embedder \<Rightarrow> string \<Rightarrow> nat \<Rightarrow> vstate \<Rightarrow> error + source list" where
  "FAISSVectorStore_search emb query top_k self =
     (case similarity_search_with_score emb (store self) query top_k of
        Inl e \<Rightarrow> Inl e
      | Inr results \<Rightarrow> Inr (map format_source results))"

definition FAISSVectorStore_delete :: "string list \<Rightarrow> vstate \<Rightarrow> (error + bool) \<times> vstate" where
  \<comment> \<open>the body is \<^verbatim>\<open>return False\<close>\<close>
  "FAISSVectorStore_delete document_ids self = (Inr False, self)"

definition ChromaVectorStore_add_documents ::
  "embedder \<Rightarrow> document list \<Rightarrow> vstate \<Rightarrow> (error + nat) \<times> vstate" where
  "ChromaVectorStore_add_documents emb documents self =
     (if documents = [] then (Inr 0, self)
      else (case faiss_add_documents emb documents (store self) of
              Inl e \<Rightarrow> (Inl e, self)
            | Inr idx \<Rightarrow> (Inr (length documents), save_local (self\<lparr>store := idx\<rparr>))))"

definition ChromaVectorStore_search ::
  "embedder \<Rightarrow> string \<Rightarrow> nat \<Rightarrow> vstate \<Rightarrow> error + source list" where
  "ChromaVectorStore_search emb query top_k self =
     (case similarity_search_with_score emb (store self) query top_k of
        Inl e \<Rightarrow> Inl e
      | Inr results \<Rightarrow> Inr (map format_source results))"

section \<open>services/vector\_store\_service.py\<close>

text \<open>
  \<^verbatim>\<open>str.strip()\<close> removes leading and trailing whitespace; for the characters below 256
  Python's whitespace is the codes 9 to 13, 28 to 32, 133 and 160.
\<close>

definition is_space :: "char \<Rightarrow> bool" where
  "is_space c =
     (let n = (of_char c :: nat)
      in (9 \<le> n \<and> n \<le> 13) \<or> (28 \<le> n \<and> n \<le> 32) \<or> n = 133 \<or> n = 160)"

definition strip :: "string \<Rightarrow> string" where
  "strip s = rev (dropWhile is_space (rev (dropWhile is_space s)))"

definition dummy_text :: string where
  "dummy_text = ''CareSync AI initialization document. This is a placeholder.''"

definition initialization_metadata :: metadata where
  "initialization_metadata = [(''source'', VStr ''initialization'')]"

text \<open>
  \<^verbatim>\<open>VectorStoreService._initialize_vector_store\<close>. The object's state is a \<open>vstate\<close>,
  the field \<^verbatim>\<open>self.vector_store\<close> being \<open>store\<close>. \<open>load_local\<close> is the library's
  deserialisation of the index file, which may raise; the file exists when \<open>persisted\<close>
  is not \<open>None\<close>. Any failure of the first \<^verbatim>\<open>try\<close>, the missing file among them, leads
  to the handler that builds an index holding the placeholder document and saves it.
  Building and saving share the second \<^verbatim>\<open>try\<close>: a failure of either is re-raised as
  \<^verbatim>\<open>Exception("Error initializing vector store: ...")\<close>, and when it is the saving
  that fails, \<^verbatim>\<open>self.vector_store\<close> has already been assigned and the file is whatever
  the failed write left. \<open>saving\<close> is the outcome of that call of \<^verbatim>\<open>save_local\<close>.
\<close>

definition initialize_vector_store ::
  "embedder \<Rightarrow> (faiss \<Rightarrow> error + faiss) \<Rightarrow> save_outcome \<Rightarrow> vstate
     \<Rightarrow> (error + unit) \<times> vstate" where
  "initialize_vector_store emb load_local saving self =
     (case (case persisted self of
              Some file \<Rightarrow> load_local file
            | None \<Rightarrow> Inl (FileNotFoundError ''Vector store index not found'')) of
        Inr idx \<Rightarrow> (Inr (), self\<lparr>store := idx\<rparr>)
      | Inl e \<Rightarrow>
          (case faiss_from_texts emb [dummy_text] [initialization_metadata] of
             Inl e' \<Rightarrow>
               (Inl (Exception (''Error initializing vector store: '' @ error_str e')), self)
           | Inr idx \<Rightarrow>
               (case saving of
                  Saved \<Rightarrow> (Inr (), save_local (self\<lparr>store := idx\<rparr>))
                | SaveFailed e' file \<Rightarrow>
                    (Inl (Exception (''Error initializing vector store: '' @ error_str e')),
                     self\<lparr>store := idx, persisted := file\<rparr>))))"

text \<open>
  \<^verbatim>\<open>VectorStoreService.add_document\<close>: the whole body is inside a \<^verbatim>\<open>try\<close> whose
  handler prints the error and returns \<^verbatim>\<open>False\<close>.
\<close>

definition add_document ::
  "embedder \<Rightarrow> string \<Rightarrow> metadata \<Rightarrow> vstate \<Rightarrow> (error + bool) \<times> vstate" where
  "add_document emb content md self =
     (if strip content = [] then (Inr False, self)
      else (case faiss_add_texts emb [content] [md] (store self) of
              Inl e \<Rightarrow> (Inr False, self)
            | Inr idx \<Rightarrow> (Inr True, save_local (self\<lparr>store := idx\<rparr>))))"

record hit =
  hit_content :: string
  hit_metadata :: metadata
  hit_score :: real

definition is_initialization :: "metadata \<Rightarrow> bool" where
  \<comment> \<open>\<^verbatim>\<open>metadata.get("source") == "initialization"\<close>\<close>
  "is_initialization md = (map_of md ''source'' = Some (VStr ''initialization''))"

definition format_hit :: "document \<times> real \<Rightarrow> hit" where
  "format_hit r =
     (case r of (doc, s) \<Rightarrow>
        \<lparr>hit_content = page_content doc, hit_metadata = metadata doc, hit_score = s\<rparr>)"

text \<open>
  \<^verbatim>\<open>VectorStoreService.search_similar\<close>: the library returns its \<open>k\<close> nearest entries,
  then the loop keeps those whose metadata does not mark the initialization document.
  The handler of the enclosing \<^verbatim>\<open>try\<close> prints the error and returns the empty list.
\<close>

definition search_similar ::
  "embedder \<Rightarrow> string \<Rightarrow> nat \<Rightarrow> vstate \<Rightarrow> error + hit list" where
  "search_similar emb query k self =
     (if strip query = [] then Inr []
      else (case similarity_search_with_score emb (store self) query k of
              Inl e \<Rightarrow> Inr []
            | Inr results \<Rightarrow>
                Inr (map format_hit
                       (filter (\<lambda>r. \<not> is_initialization (metadata (fst r))) results))))"

section \<open>Objects and attribute lookup\<close>

text \<open>
  The services reach their vector store through an attribute of an object whose class is
  fixed only at run time, so a call \<^verbatim>\<open>obj.name(args)\<close> first looks \<open>name\<close> up and raises
  \<^verbatim>\<open>AttributeError\<close> when the object has no such attribute. An object is its class name
  and its attributes; a method takes the state of its object and, when it changes the
  object, returns the new state. \<open>OtherAttribute\<close> stands for the data attributes and
  for the private methods, which no caller in the sources looks up.
\<close>

datatype 'st member =
    AddDocuments "document list \<Rightarrow> 'st \<Rightarrow> (error + nat) \<times> 'st"
  | Search "string \<Rightarrow> nat \<Rightarrow> 'st \<Rightarrow> error + source list"
  | Delete "string list \<Rightarrow> 'st \<Rightarrow> (error + bool) \<times> 'st"
  | AddDocument "string \<Rightarrow> metadata \<Rightarrow> 'st \<Rightarrow> (error + bool) \<times> 'st"
  | SearchSimilar "string \<Rightarrow> nat \<Rightarrow> 'st \<Rightarrow> error + hit list"
  | OtherAttribute

record 'st object =
  class_name :: string
  attributes :: "(string \<times> 'st member) list"

definition getattr :: "'st object \<Rightarrow> string \<Rightarrow> error + 'st member" where
  \<comment> \<open>the message is Python's, without its quotation marks\<close>
  "getattr obj name =
     (case map_of (attributes obj) name of
        None \<Rightarrow>
          Inl (AttributeError
                 (class_name obj @ '' object has no attribute '' @ name))
      | Some m \<Rightarrow> Inr m)"

text \<open>
  \<^verbatim>\<open>get_vector_store_service()\<close> returns a \<^verbatim>\<open>VectorStoreService\<close>: its attributes are
  the four fields set by \<^verbatim>\<open>__init__\<close>, the two private methods, \<^verbatim>\<open>add_document\<close> and
  \<^verbatim>\<open>search_similar\<close>. \<^verbatim>\<open>create_vector_store("faiss", ...)\<close> returns a
  \<^verbatim>\<open>FAISSVectorStore\<close>, with \<^verbatim>\<open>add_documents\<close>, \<^verbatim>\<open>search\<close> and \<^verbatim>\<open>delete\<close>.
\<close>

definition get_vector_store_service :: "embedder \<Rightarrow> vstate object" where
  "get_vector_store_service emb =
     \<lparr>class_name = ''VectorStoreService'',
      attributes =
        [(''vector_store'', OtherAttribute),
         (''embeddings'', OtherAttribute),
         (''vector_store_path'', OtherAttribute),
         (''document_store_path'', OtherAttribute),
         (''_ensure_directories'', OtherAttribute),
         (''_initialize_vector_store'', OtherAttribute),
         (''add_document'', AddDocument (add_document emb)),
         (''search_similar'', SearchSimilar (search_similar emb))]\<rparr>"

definition create_faiss_vector_store :: "embedder \<Rightarrow> vstate object" where
  "create_faiss_vector_store emb =
     \<lparr>class_name = ''FAISSVectorStore'',
      attributes =
        [(''store_path'', OtherAttribute),
         (''embeddings'', OtherAttribute),
         (''store'', OtherAttribute),
         (''_initialize_store'', OtherAttribute),
         (''add_documents'', AddDocuments (FAISSVectorStore_add_documents emb)),
         (''search'', Search (FAISSVectorStore_search emb)),
         (''delete'', Delete FAISSVectorStore_delete)]\<rparr>"

section \<open>services/llm\_service.py\<close>

text \<open>
  The language model is external: \<open>llm\<close> maps the filled prompt, which is one of two
  templates, to the answer or to the error the chain raises.
\<close>

datatype prompt = WithContext "source list" string | WithoutContext string

type_synonym language_model = "prompt \<Rightarrow> error + string"

record llm_response =
  response_answer :: string
  response_confidence :: real
  response_conversation_id :: "string option"

definition generate_response ::
  "language_model \<Rightarrow> string \<Rightarrow> source list option \<Rightarrow> string option \<Rightarrow> error + llm_response" where
  "generate_response llm question ctx conversation_id =
     (let has_ctx = (case ctx of None \<Rightarrow> False | Some c \<Rightarrow> c \<noteq> [])
      in (case (if has_ctx then llm (WithContext (the ctx) question)
                else llm (WithoutContext question)) of
            Inl e \<Rightarrow> Inl (Exception (''Error generating LLM response: '' @ error_str e))
          | Inr answer \<Rightarrow>
              Inr \<lparr>response_answer = answer,
                   response_confidence = (if has_ctx then 8 / 10 else 5 / 10),
                   response_conversation_id = conversation_id\<rparr>))"

section \<open>services/chat\_service.py\<close>

record chat_result =
  chat_answer :: string
  chat_sources :: "source list option"
  chat_confidence :: real
  chat_conversation_id :: string
  chat_has_context :: bool

text \<open>
  \<^verbatim>\<open>ChatService.process_question\<close>. \<open>uuid4\<close> is the identifier that \<^verbatim>\<open>uuid.uuid4()\<close>
  draws in this call; \<open>vector_store_service\<close> is the object that \<^verbatim>\<open>__init__\<close> stored,
  \<open>vs\<close> its state. The call \<^verbatim>\<open>self.vector_store_service.search(question, top_k=3)\<close> binds
  the keyword \<^verbatim>\<open>top_k\<close>, which among the methods above only \<^verbatim>\<open>search\<close> of the stores of
  vector\_store/base.py accepts. Every exception is re-raised as
  \<^verbatim>\<open>Exception("Error processing question: ...")\<close>.
\<close>

definition question_error :: "error \<Rightarrow> error" where
  "question_error e = Exception (''Error processing question: '' @ error_str e)"

definition process_question ::
  "language_model \<Rightarrow> string \<Rightarrow> 'st object \<Rightarrow> string \<Rightarrow> string option \<Rightarrow> 'st
     \<Rightarrow> error + chat_result" where
  "process_question llm uuid4 vector_store_service question conversation_id vs =
     (let cid = (case conversation_id of
                   None \<Rightarrow> uuid4
                 | Some c \<Rightarrow> if c = [] then uuid4 else c)
      in (case getattr vector_store_service ''search'' of
            Inl e \<Rightarrow> Inl (question_error e)
          | Inr (Search search) \<Rightarrow>
              (case search question 3 vs of
                 Inl e \<Rightarrow> Inl (question_error e)
               | Inr sources \<Rightarrow>
                   (case (if sources \<noteq> []
                          then generate_response llm question (Some sources) (Some cid)
                          else generate_response llm question None (Some cid)) of
                      Inl e \<Rightarrow> Inl (question_error e)
                    | Inr response \<Rightarrow>
                        Inr \<lparr>chat_answer = response_answer response,
                             chat_sources = (if sources \<noteq> [] then Some sources else None),
                             chat_confidence = response_confidence response,
                             chat_conversation_id = cid,
                             chat_has_context = (sources \<noteq> [])\<rparr>))
          | Inr _ \<Rightarrow>
              Inl (question_error (TypeError ''unexpected keyword argument top_k''))))"

section \<open>services/document\_service.py\<close>

text \<open>
  \<^verbatim>\<open>os.path.splitext(filename)[1].lower()\<close>, for POSIX paths: the extension starts at
  the last dot of the last path component, unless only dots precede it there.
  \<open>rfind\<close> is \<^verbatim>\<open>str.rfind\<close> for one character, \<open>-1\<close> when it does not occur.
\<close>

definition rfind :: "string \<Rightarrow> char \<Rightarrow> int" where
  "rfind p c =
     (if c \<in> set p then int (length p) - 1 - int (length (takeWhile (\<lambda>x. x \<noteq> c) (rev p)))
      else - 1)"

definition splitext :: "string \<Rightarrow> string \<times> string" where
  "splitext p =
     (let sepIndex = rfind p (CHR ''/'');
          dotIndex = rfind p (CHR ''.'')
      in if dotIndex > sepIndex
            \<and> list_ex (\<lambda>c. c \<noteq> CHR ''.'')
                 (take (nat (dotIndex - (sepIndex + 1))) (drop (nat (sepIndex + 1)) p))
         then (take (nat dotIndex) p, drop (nat dotIndex) p)
         else (p, []))"

definition lower_char :: "char \<Rightarrow> char" where
  \<comment> \<open>\<^verbatim>\<open>str.lower\<close> on ASCII; no other character is mapped to an ASCII letter\<close>
  "lower_char c =
     (let n = (of_char c :: nat) in if 65 \<le> n \<and> n \<le> 90 then char_of (n + 32) else c)"

definition lower :: "string \<Rightarrow> string" where
  "lower s = map lower_char s"

definition file_extension_of :: "string \<Rightarrow> string" where
  "file_extension_of filename = lower (snd (splitext filename))"

definition path_join :: "string \<Rightarrow> string \<Rightarrow> string" where
  \<comment> \<open>\<^verbatim>\<open>os.path.join(a, b)\<close>\<close>
  "path_join a b =
     (if b \<noteq> [] \<and> hd b = CHR ''/'' then b
      else if a = [] \<or> last a = CHR ''/'' then a @ b
      else a @ ''/'' @ b)"

fun show_digits :: "nat \<Rightarrow> nat \<Rightarrow> string" where
  \<comment> \<open>the decimal digits of \<open>n\<close>; the first argument bounds their number\<close>
  "show_digits 0 n = []"
| "show_digits (Suc fuel) n =
     (if n < 10 then [char_of (48 + n)]
      else show_digits fuel (n div 10) @ [char_of (48 + n mod 10)])"

definition show_nat :: "nat \<Rightarrow> string" where
  \<comment> \<open>\<^verbatim>\<open>str(n)\<close>: a number has at most \<open>n + 1\<close> digits\<close>
  "show_nat n = show_digits (Suc n) n"

text \<open>
  What the service gets from outside in one call: the two identifiers drawn at random
  (\<^verbatim>\<open>uuid.uuid4()\<close>, the name of the temporary file), the directory of the document
  store, the parsers (\<^verbatim>\<open>PdfReader\<close> gives the text of each page, \<^verbatim>\<open>docx.Document\<close> the
  text of each paragraph; both may raise) and langchain's
  \<^verbatim>\<open>RecursiveCharacterTextSplitter(chunk_size=1000, chunk_overlap=200).split_text\<close>.
\<close>

record environment =
  uuid4 :: string
  temp_name :: string
  document_store_path :: string
  pdf_pages :: "string \<Rightarrow> error + string list"
  docx_paragraphs :: "string \<Rightarrow> error + string list"
  split_text :: "string \<Rightarrow> string list"

text \<open>
  The files the service writes, and the state of the vector store object it was given.
\<close>

record 'st dstate =
  temp_files :: "(string \<times> string) list"
  document_files :: "(string \<times> string) list"
  vector_store_state :: 'st

definition split_text_documents ::
  "environment \<Rightarrow> string \<Rightarrow> string \<Rightarrow> string \<Rightarrow> string option \<Rightarrow> document list" where
  \<comment> \<open>\<^verbatim>\<open>DocumentService._split_text\<close>\<close>
  "split_text_documents env text filename document_id document_type =
     map (\<lambda>(i, chunk).
            \<lparr>page_content = chunk,
             metadata =
               [(''filename'', VStr filename),
                (''document_id'', VStr document_id),
                (''chunk_id'', VInt (int i)),
                (''document_type'',
                   (case document_type of None \<Rightarrow> VNone | Some t \<Rightarrow> VStr t))]\<rparr>)
         (enumerate 0 (split_text env text))"

definition pdf_text_content :: "string list \<Rightarrow> string" where
  "pdf_text_content pages =
     concat (map (\<lambda>(i, page_text).
                    if page_text \<noteq> []
                    then [CHR 0x0A, CHR 0x0A] @ ''=== Page '' @ show_nat (i + 1) @ '' ===''
                         @ [CHR 0x0A, CHR 0x0A] @ page_text
                    else [])
                 (enumerate 0 pages))"

definition process_pdf ::
  "environment \<Rightarrow> string \<Rightarrow> string \<Rightarrow> string \<Rightarrow> string option \<Rightarrow> error + document list" where
  "process_pdf env file_data filename document_id document_type =
     (case pdf_pages env file_data of
        Inl e \<Rightarrow> Inl (Exception (''Error processing PDF: '' @ error_str e))
      | Inr pages \<Rightarrow>
          Inr (split_text_documents env (pdf_text_content pages)
                 filename document_id document_type))"

definition process_docx ::
  "environment \<Rightarrow> string \<Rightarrow> string \<Rightarrow> string \<Rightarrow> string option \<Rightarrow> error + document list" where
  "process_docx env file_data filename document_id document_type =
     (case docx_paragraphs env file_data of
        Inl e \<Rightarrow> Inl (Exception (''Error processing DOCX: '' @ error_str e))
      | Inr paras \<Rightarrow>
          Inr (split_text_documents env (concat (map (\<lambda>para. para @ [CHR 0x0A]) paras))
                 filename document_id document_type))"

record upload_result =
  upload_success :: bool
  upload_document_id :: string
  upload_filename :: string
  upload_document_type :: "string option"
  upload_num_chunks :: nat
  upload_file_path :: string
  upload_file_extension :: string

definition document_error :: "error \<Rightarrow> error" where
  "document_error e = Exception (''Error processing document: '' @ error_str e)"

text \<open>
  \<^verbatim>\<open>DocumentService.process_document\<close>. The upload is written to a temporary file
  (created with \<^verbatim>\<open>delete=False\<close>) before the extension is looked at; the copy into the
  document store, the removal of the temporary file and the call of
  \<^verbatim>\<open>self.vector_store_service.add_documents\<close> follow the extraction, so an exception
  raised by the extraction skips all three. The last case, here and in
  \<open>process_question\<close>, is an attribute of the right name that is not the function the
  call expects; no object of the sources has one.
\<close>

definition process_document ::
  "environment \<Rightarrow> 'st object \<Rightarrow> string \<Rightarrow> string \<Rightarrow> string option \<Rightarrow> 'st dstate
     \<Rightarrow> (error + upload_result) \<times> 'st dstate" where
  "process_document env vector_store_service filename file_data document_type st =
     (let document_id = uuid4 env;
          file_extension = file_extension_of filename;
          file_path = path_join (document_store_path env) (document_id @ file_extension);
          st1 = st\<lparr>temp_files := (temp_name env, file_data) # temp_files st\<rparr>
      in (case (if file_extension = ''.pdf''
                then process_pdf env file_data filename document_id document_type
                else if file_extension = ''.docx''
                then process_docx env file_data filename document_id document_type
                else Inl (ValueError (''Unsupported file type: '' @ file_extension))) of
            Inl e \<Rightarrow> (Inl (document_error e), st1)
          | Inr documents \<Rightarrow>
              (let st2 = st1\<lparr>document_files := (file_path, file_data) # document_files st1\<rparr>;
                   st3 = st2\<lparr>temp_files :=
                               filter (\<lambda>f. fst f \<noteq> temp_name env) (temp_files st2)\<rparr>
               in (case getattr vector_store_service ''add_documents'' of
                     Inl e \<Rightarrow> (Inl (document_error e), st3)
                   | Inr (AddDocuments add_documents) \<Rightarrow>
                       (case add_documents documents (vector_store_state st3) of
                          (Inl e, vs) \<Rightarrow>
                            (Inl (document_error e), st3\<lparr>vector_store_state := vs\<rparr>)
                        | (Inr num_chunks, vs) \<Rightarrow>
                            (Inr \<lparr>upload_success = True,
                                  upload_document_id = document_id,
                                  upload_filename = filename,
                                  upload_document_type = document_type,
                                  upload_num_chunks = num_chunks,
                                  upload_file_path = file_path,
                                  upload_file_extension = file_extension\<rparr>,
                             st3\<lparr>vector_store_state := vs\<rparr>))
                   | Inr _ \<Rightarrow>
                       (Inl (document_error (TypeError ''object is not callable with documents'')),
                        st3)))))"

section \<open>Concrete environments\<close>

text \<open>
  Environments at which the results below are evaluated: an embedding provider that maps
  a text to the one-dimensional vector of its length, one that is unavailable, a library
  loader that rejects the index file, and an index of three entries, the placeholder
  document first.
\<close>

definition length_embedder :: embedder where
  "length_embedder t = Inr [real (length t)]"

definition failing_embedder :: embedder where
  "failing_embedder t = Inl (UpstreamError ''embedding service unavailable'')"

definition rejecting_load :: "faiss \<Rightarrow> error + faiss" where
  "rejecting_load file = Inl (UpstreamError ''index cannot be loaded'')"

definition sentinel_document :: document where
  "sentinel_document = \<lparr>page_content = dummy_text, metadata = initialization_metadata\<rparr>"

definition thirst_document :: document where
  "thirst_document =
     \<lparr>page_content = ''Diabetes symptoms include increased thirst.'',
      metadata = [(''filename'', VStr ''diabetes.pdf'')]\<rparr>"

definition hours_document :: document where
  "hours_document =
     \<lparr>page_content = ''The clinic opens at nine.'',
      metadata = [(''filename'', VStr ''hours.docx'')]\<rparr>"

definition three_entries :: vstate where
  "three_entries =
     \<lparr>store = [([0], sentinel_document), ([3], thirst_document), ([9], hours_document)],
      persisted = Some [([0], sentinel_document), ([3], thirst_document), ([9], hours_document)],
      writes = 3\<rparr>"

definition two_dimensional :: vstate where
  "two_dimensional =
     \<lparr>store = [],
      persisted = Some [([0, 1], sentinel_document), ([1, 0], thirst_document)],
      writes = 2\<rparr>"

section \<open>Results about vector\_store/base.py\<close>

text \<open>
  C1, as stated: among distances \<open>0 \<le> d1 \<le> d2\<close> the nearer one never gets the lower
  similarity. The conversion breaks this across its two branches: distance 1 is
  converted to \<open>1 - 1 = 0\<close>, the farther distance 2 to \<open>1 / 2\<close>.
\<close>

theorem relevance_score_not_monotone:
  "(0::real) \<le> 1 \<and> (1::real) \<le> 2 \<and> relevance_score_of 1 < relevance_score_of 2"
  by (simp add: relevance_score_of_def)

text \<open>
  C1, amended: for distances \<open>0 \<le> d1 \<le> d2\<close> that fall in the same branch of the
  conversion (both at most 1, or both above 1), the similarity of \<open>d1\<close> is at least the
  similarity of \<open>d2\<close>; and the similarity of every distance \<open>d \<ge> 0\<close> lies in \<open>[0, 1]\<close>.
\<close>

theorem relevance_score_monotone_per_branch:
  assumes "0 \<le> d1" and "d1 \<le> d2" and "d2 \<le> 1 \<or> 1 < d1"
  shows "relevance_score_of d2 \<le> relevance_score_of d1
       \<and> 0 \<le> relevance_score_of d1 \<and> relevance_score_of d1 \<le> 1
       \<and> 0 \<le> relevance_score_of d2 \<and> relevance_score_of d2 \<le> 1"
proof -
  have range: "0 \<le> relevance_score_of d \<and> relevance_score_of d \<le> 1" if "0 \<le> d" for d
    using that by (simp add: relevance_score_of_def)
  have mono: "relevance_score_of d2 \<le> relevance_score_of d1"
  proof (cases "d2 \<le> 1")
    case True
    with assms show ?thesis by (simp add: relevance_score_of_def)
  next
    case False
    with assms have "1 < d1" and "1 < d2" by auto
    with assms show ?thesis by (simp add: relevance_score_of_def frac_le)
  qed
  from assms have "0 \<le> d2" by simp
  with mono range [of d1] range [of d2] assms show ?thesis by simp
qed

theorem relevance_score_monotone_per_branch_witness:
  "(0::real) \<le> 2 \<and> (2::real) \<le> 4 \<and> (1::real) < 2
   \<and> relevance_score_of 4 \<le> relevance_score_of 2
   \<and> 0 \<le> relevance_score_of 2 \<and> relevance_score_of 2 \<le> 1
   \<and> 0 \<le> relevance_score_of 4 \<and> relevance_score_of 4 \<le> 1
   \<and> (0::real) \<le> 1 / 4 \<and> (1::real) / 4 \<le> 1 / 2 \<and> (1::real) / 2 \<le> 1
   \<and> relevance_score_of (1 / 2) \<le> relevance_score_of (1 / 4)"
  using relevance_score_monotone_per_branch [of 2 4]
        relevance_score_monotone_per_branch [of "1 / 4" "1 / 2"]
  by simp

text \<open>
  C5: adding an empty list of documents returns 0 and returns the store object as it was:
  the index in memory, the index file and the count of writes to it are all unchanged.
  This holds for the FAISS store and for the Chroma store.
\<close>

theorem add_documents_empty_noop:
  "FAISSVectorStore_add_documents emb [] self = (Inr 0, self)
   \<and> ChromaVectorStore_add_documents emb [] self = (Inr 0, self)"
  by (simp add: FAISSVectorStore_add_documents_def ChromaVectorStore_add_documents_def)

text \<open>
  C9, as stated: deleting from the FAISS store fails with an error. It does not: the
  call returns the value \<^verbatim>\<open>False\<close>.
\<close>

theorem FAISSVectorStore_delete_returns:
  "fst (FAISSVectorStore_delete [''doc-1''] \<lparr>store = [], persisted = None, writes = 0\<rparr>)
     = Inr False"
  by (simp add: FAISSVectorStore_delete_def)

text \<open>
  C9, amended: on the FAISS store, which does not support deletion, every call to
  delete returns \<^verbatim>\<open>False\<close>, raises no error and leaves the store object as it was.
\<close>

theorem FAISSVectorStore_delete_False:
  "FAISSVectorStore_delete document_ids self = (Inr False, self)"
  by (simp add: FAISSVectorStore_delete_def)

section \<open>Results about services/vector\_store\_service.py\<close>

lemma strip_query_a: "strip ''a'' \<noteq> []"
  by (simp add: strip_def is_space_def)

lemma nearest_two_of_three_entries:
  "similarity_search_with_score length_embedder (store three_entries) ''a'' 2
     = Inr [(sentinel_document, 1), (thirst_document, 4)]"
  by (simp add: similarity_search_with_score_def three_entries_def length_embedder_def
        l2_distance_def)

lemma search_three_entries:
  "search_similar length_embedder ''a'' 3 three_entries
     = Inr [format_hit (thirst_document, 4), format_hit (hours_document, 64)]"
  by (simp add: search_similar_def similarity_search_with_score_def three_entries_def
        length_embedder_def l2_distance_def strip_query_a is_initialization_def
        sentinel_document_def thirst_document_def hours_document_def
        initialization_metadata_def)

text \<open>
  The entry that initialization inserts when there is no index file is the placeholder
  document, and its metadata is what \<open>is_initialization\<close> recognises.
\<close>

lemma initialize_inserts_sentinel:
  assumes "persisted self = None" and "emb dummy_text = Inr v"
  shows "store (snd (initialize_vector_store emb load_local saving self))
           = [(v, sentinel_document)]"
    and "is_initialization (metadata sentinel_document)"
  using assms
  by (simp_all add: initialize_vector_store_def faiss_from_texts_def faiss_add_texts_def
        faiss_add_documents_def save_local_def sentinel_document_def is_initialization_def
        initialization_metadata_def split: save_outcome.splits)

text \<open>
  C2, as stated: for every index state, no search returns the placeholder document.
  \<^verbatim>\<open>FAISSVectorStore.search\<close> of vector\_store/base.py filters nothing. On the index
  that \<open>initialize_vector_store\<close> creates and saves when the store path is empty, and
  which a \<^verbatim>\<open>FAISSVectorStore\<close> on the same path loads, it returns the placeholder, with
  the metadata that marks it; and so it does on the index of three entries.
\<close>

theorem FAISSVectorStore_search_returns_placeholder:
  "snd (initialize_vector_store length_embedder Inr Saved
          \<lparr>store = [], persisted = None, writes = 0\<rparr>)
     = \<lparr>store = [([59], sentinel_document)],
        persisted = Some [([59], sentinel_document)], writes = 1\<rparr>
   \<and> FAISSVectorStore_search length_embedder ''a'' 2
        \<lparr>store = [([59], sentinel_document)],
         persisted = Some [([59], sentinel_document)], writes = 1\<rparr>
       = Inr [format_source (sentinel_document, 3364)]
   \<and> FAISSVectorStore_search length_embedder ''a'' 2 three_entries
       = Inr [format_source (sentinel_document, 1), format_source (thirst_document, 4)]
   \<and> is_initialization (source_metadata (format_source (sentinel_document, 3364)))
   \<and> is_initialization (source_metadata (format_source (sentinel_document, 1)))"
proof -
  have created:
    "snd (initialize_vector_store length_embedder Inr Saved
            \<lparr>store = [], persisted = None, writes = 0\<rparr>)
       = \<lparr>store = [([59], sentinel_document)],
          persisted = Some [([59], sentinel_document)], writes = 1\<rparr>"
    by (simp add: initialize_vector_store_def faiss_from_texts_def faiss_add_texts_def
          faiss_add_documents_def save_local_def length_embedder_def sentinel_document_def
          dummy_text_def)
  have on_created:
    "FAISSVectorStore_search length_embedder ''a'' 2
        \<lparr>store = [([59], sentinel_document)],
         persisted = Some [([59], sentinel_document)], writes = 1\<rparr>
       = Inr [format_source (sentinel_document, 3364)]"
    by (simp add: FAISSVectorStore_search_def similarity_search_with_score_def
          length_embedder_def l2_distance_def)
  have on_three:
    "FAISSVectorStore_search length_embedder ''a'' 2 three_entries
       = Inr [format_source (sentinel_document, 1), format_source (thirst_document, 4)]"
    by (simp add: FAISSVectorStore_search_def nearest_two_of_three_entries)
  have marked: "is_initialization (source_metadata (format_source (sentinel_document, d)))"
    for d
    by (simp add: format_source_def is_initialization_def sentinel_document_def
          initialization_metadata_def)
  from created on_created on_three marked [of 3364] marked [of 1]
  show ?thesis by (intro conjI)
qed

text \<open>
  C2, amended: for every embedding provider, index state, query and \<open>k\<close>,
  \<open>search_similar\<close> of the vector store service returns a list, and no element of it
  carries the metadata \<^verbatim>\<open>source = "initialization"\<close> that marks the placeholder
  document inserted when the index is first created.
\<close>

theorem search_similar_excludes_initialization:
  "\<exists>hits. search_similar emb query k self = Inr hits
          \<and> (\<forall>h \<in> set hits. \<not> is_initialization (hit_metadata h))"
  by (auto simp: search_similar_def format_hit_def split: sum.splits)

theorem search_similar_excludes_initialization_witness:
  "\<exists>hits. search_similar length_embedder ''a'' 3 three_entries = Inr hits
      \<and> length hits = 2 \<and> list_all (\<lambda>h. \<not> is_initialization (hit_metadata h)) hits"
  using search_similar_excludes_initialization [of length_embedder "''a''" 3 three_entries]
  by (auto simp: search_three_entries list_all_iff)

text \<open>
  C10: the placeholder is removed after the library has cut the result to the \<open>k\<close>
  nearest entries. Whenever it is among those \<open>k\<close>, \<open>search_similar\<close> returns fewer
  than \<open>k\<close> results, however many other entries the index holds. At the index of three
  entries, two of them eligible, a search with \<open>k = 2\<close> returns fewer than two results.
\<close>

theorem search_similar_fewer_than_k:
  assumes "strip query \<noteq> []"
      and "similarity_search_with_score emb (store self) query k = Inr results"
      and "\<exists>r \<in> set results. is_initialization (metadata (fst r))"
  shows "\<exists>hits. search_similar emb query k self = Inr hits \<and> length hits < k"
proof -
  from assms(2) have "length results \<le> k"
    by (auto simp: similarity_search_with_score_def split: sum.splits)
  moreover from assms(3)
  have "length (filter (\<lambda>r. \<not> is_initialization (metadata (fst r))) results)
          < length results"
    by (auto intro: length_filter_less)
  ultimately show ?thesis
    using assms(1,2) by (simp add: search_similar_def)
qed

theorem search_similar_fewer_than_k_witness:
  "2 \<le> length (filter (\<lambda>e. \<not> is_initialization (metadata (snd e))) (store three_entries))
   \<and> (\<exists>hits. search_similar length_embedder ''a'' 2 three_entries = Inr hits
              \<and> length hits < 2)"
proof -
  have "\<exists>r \<in> set [(sentinel_document, 1::real), (thirst_document, 4)].
          is_initialization (metadata (fst r))"
    by (simp add: is_initialization_def sentinel_document_def initialization_metadata_def)
  from search_similar_fewer_than_k [OF strip_query_a nearest_two_of_three_entries this]
  show ?thesis
    by (simp add: three_entries_def is_initialization_def sentinel_document_def
          thirst_document_def hours_document_def initialization_metadata_def)
qed

text \<open>
  C8, as stated: an internal failure of an insert or a search reaches the caller as an
  error, not as a default value. With the embedding provider unavailable,
  \<open>search_similar\<close> returns the empty list and \<open>add_document\<close> returns \<^verbatim>\<open>False\<close>, both
  as ordinary results.
\<close>

theorem failure_reported_as_default:
  "search_similar failing_embedder ''diabetes symptoms'' 3 three_entries = Inr []
   \<and> fst (add_document failing_embedder ''Diabetes symptoms include increased thirst.'' []
            three_entries) = Inr False"
  by (simp add: search_similar_def add_document_def similarity_search_with_score_def
        faiss_add_texts_def faiss_add_documents_def failing_embedder_def strip_def
        is_space_def)

text \<open>
  C8, amended: when the embedding of the query fails, \<open>search_similar\<close> returns the
  empty list; when the embedding of the content fails, \<open>add_document\<close> returns
  \<^verbatim>\<open>False\<close> and leaves the store object as it was. The service catches the error inside
  and the caller gets the default value.
\<close>

theorem failures_become_defaults:
  assumes "emb query = Inl e" and "emb txt = Inl e'"
  shows "search_similar emb query k self = Inr []
       \<and> add_document emb txt md self = (Inr False, self)"
  using assms
  by (simp add: search_similar_def add_document_def similarity_search_with_score_def
        faiss_add_texts_def faiss_add_documents_def)

theorem failures_become_defaults_witness:
  "strip ''diabetes symptoms'' \<noteq> []
   \<and> strip ''Diabetes symptoms include increased thirst.'' \<noteq> []
   \<and> search_similar failing_embedder ''diabetes symptoms'' 3 three_entries = Inr []
   \<and> add_document failing_embedder ''Diabetes symptoms include increased thirst.'' []
        three_entries = (Inr False, three_entries)"
  using failures_become_defaults
          [of failing_embedder "''diabetes symptoms''" _
              "''Diabetes symptoms include increased thirst.''" _ 3 three_entries "[]"]
  by (simp add: failing_embedder_def strip_def is_space_def)

text \<open>
  C7, as stated: initializing on an index file whose stored dimension differs from the
  requested one fails and leaves the file alone. The file below holds vectors of
  dimension 2 and the embedding provider produces dimension 1. If the library loads the
  file, the call succeeds; if the library rejects the file, the call succeeds too, and
  the file is overwritten by an index that holds the placeholder only.
\<close>

theorem initialize_never_reports_dimension:
  "fst (initialize_vector_store length_embedder Inr Saved two_dimensional) = Inr ()
   \<and> fst (initialize_vector_store length_embedder rejecting_load Saved two_dimensional)
       = Inr ()
   \<and> persisted
        (snd (initialize_vector_store length_embedder rejecting_load Saved two_dimensional))
       = Some [([59], sentinel_document)]"
  by (simp add: initialize_vector_store_def two_dimensional_def length_embedder_def
        rejecting_load_def faiss_from_texts_def faiss_add_texts_def faiss_add_documents_def
        save_local_def sentinel_document_def dummy_text_def)

text \<open>
  C7, amended: initialization makes no dimension check. On an index file that the
  library loads, it succeeds with the loaded index, whatever the stored dimension, and
  the file is not modified.
\<close>

theorem initialize_loads_without_check:
  assumes "persisted self = Some file" and "load_local file = Inr idx"
  shows "initialize_vector_store emb load_local saving self = (Inr (), self\<lparr>store := idx\<rparr>)"
  using assms by (simp add: initialize_vector_store_def)

theorem initialize_loads_without_check_witness:
  "persisted two_dimensional = Some [([0, 1], sentinel_document), ([1, 0], thirst_document)]
   \<and> initialize_vector_store length_embedder Inr Saved two_dimensional
     = (Inr (), two_dimensional
                  \<lparr>store := [([0, 1], sentinel_document), ([1, 0], thirst_document)]\<rparr>)
   \<and> persisted (snd (initialize_vector_store length_embedder Inr Saved two_dimensional))
     = persisted two_dimensional"
  using initialize_loads_without_check
          [of two_dimensional "[([0, 1], sentinel_document), ([1, 0], thirst_document)]" Inr
              "[([0, 1], sentinel_document), ([1, 0], thirst_document)]" length_embedder Saved]
  by (simp add: two_dimensional_def)

text \<open>
  Initialization has one error, the generic one, raised when building the placeholder
  index or saving it fails. A failed save leaves the new index in memory and the file as
  the failed write left it.
\<close>

lemma initialize_error_is_generic:
  assumes "fst (initialize_vector_store emb load_local saving self) = Inl e"
  shows "\<exists>m. e = Exception (''Error initializing vector store: '' @ m)"
  using assms
  by (auto simp: initialize_vector_store_def
           split: option.splits sum.splits save_outcome.splits)

lemma initialize_failed_save:
  assumes "persisted self = None" and "emb dummy_text = Inr v"
  shows "initialize_vector_store emb load_local (SaveFailed err file) self
           = (Inl (Exception (''Error initializing vector store: '' @ error_str err)),
              self\<lparr>store := [(v, sentinel_document)], persisted := file\<rparr>)"
  using assms
  by (simp add: initialize_vector_store_def faiss_from_texts_def faiss_add_texts_def
        faiss_add_documents_def sentinel_document_def)

section \<open>Results about services/chat\_service.py\<close>

text \<open>
  C3: the claim says that a question asked without a conversation id succeeds. The
  service object that \<^verbatim>\<open>ChatService.__init__\<close> stores is a \<^verbatim>\<open>VectorStoreService\<close>,
  which has no attribute \<^verbatim>\<open>search\<close>, so the call fails for every question, every
  conversation id and every state of the index.
\<close>

theorem process_question_fails:
  "process_question llm fresh_id (get_vector_store_service emb) question conversation_id vs
     = Inl (Exception
        ''Error processing question: VectorStoreService object has no attribute search'')"
  by (simp add: process_question_def getattr_def get_vector_store_service_def
        question_error_def)

text \<open>
  With a store object that does have \<^verbatim>\<open>search\<close>, an empty result and an answering model
  give what the claim describes: no sources, no context, confidence 0.5 and the
  identifier drawn in this call.
\<close>

lemma process_question_without_sources:
  assumes "getattr vector_store_service ''search'' = Inr (Search search)"
      and "search question 3 vs = Inr []"
      and "llm (WithoutContext question) = Inr answer"
  shows "process_question llm fresh_id vector_store_service question None vs
           = Inr \<lparr>chat_answer = answer, chat_sources = None, chat_confidence = 5 / 10,
                  chat_conversation_id = fresh_id, chat_has_context = False\<rparr>"
  using assms by (simp add: process_question_def generate_response_def)

lemma process_question_faiss_empty:
  assumes "emb question = Inr v" and "llm (WithoutContext question) = Inr answer"
  shows "process_question llm fresh_id (create_faiss_vector_store emb) question None
           \<lparr>store = [], persisted = None, writes = 0\<rparr>
           = Inr \<lparr>chat_answer = answer, chat_sources = None, chat_confidence = 5 / 10,
                  chat_conversation_id = fresh_id, chat_has_context = False\<rparr>"
proof -
  have "getattr (create_faiss_vector_store emb) ''search''
          = Inr (Search (FAISSVectorStore_search emb))"
    by (simp add: getattr_def create_faiss_vector_store_def)
  moreover
  have "FAISSVectorStore_search emb question 3 \<lparr>store = [], persisted = None, writes = 0\<rparr>
          = Inr []"
    using assms(1)
    by (simp add: FAISSVectorStore_search_def similarity_search_with_score_def)
  ultimately show ?thesis
    using assms(2) by (rule process_question_without_sources)
qed

section \<open>Results about services/document\_service.py\<close>

lemma extension_of_setup_exe: "file_extension_of ''setup.exe'' = ''.exe''"
  by (simp add: file_extension_of_def splitext_def rfind_def lower_def lower_char_def Let_def)

text \<open>
  \<^verbatim>\<open>DocumentService._split_text\<close> adds metadata and nothing else: the texts of the
  documents are the chunks of the library's splitter, in its order, numbered from 0.
\<close>

lemma split_text_documents_contents:
  "map page_content (split_text_documents env text filename document_id document_type)
     = split_text env text"
  by (simp add: split_text_documents_def comp_def case_prod_unfold)

lemma split_text_documents_chunk_id:
  assumes "i < length (split_text env text)"
  shows "map_of (metadata (split_text_documents env text filename document_id document_type ! i))
           ''chunk_id'' = Some (VInt (int i))"
  using assms by (simp add: split_text_documents_def nth_enumerate_eq)

text \<open>
  C6: for every file name whose extension is neither \<^verbatim>\<open>.pdf\<close> nor \<^verbatim>\<open>.docx\<close>,
  \<open>process_document\<close> fails with the error for an unsupported file type; the state of
  the vector store and the document store are unchanged. The only trace of the call is
  the temporary file, which is not removed.
\<close>

theorem process_document_unsupported:
  assumes "file_extension_of filename \<noteq> ''.pdf''"
      and "file_extension_of filename \<noteq> ''.docx''"
  shows "process_document env vector_store_service filename file_data document_type st
           = (Inl (Exception (''Error processing document: Unsupported file type: ''
                                @ file_extension_of filename)),
              st\<lparr>temp_files := (temp_name env, file_data) # temp_files st\<rparr>)
       \<and> vector_store_state
           (snd (process_document env vector_store_service filename file_data document_type st))
           = vector_store_state st
       \<and> document_files
           (snd (process_document env vector_store_service filename file_data document_type st))
           = document_files st"
  using assms by (simp add: process_document_def document_error_def Let_def)

theorem process_document_unsupported_witness:
  "\<forall>env vector_store_service file_data document_type (st :: vstate dstate).
     process_document env vector_store_service ''setup.exe'' file_data document_type st
       = (Inl (Exception ''Error processing document: Unsupported file type: .exe''),
          st\<lparr>temp_files := (temp_name env, file_data) # temp_files st\<rparr>)"
proof (intro allI)
  fix env vector_store_service file_data document_type and st :: "vstate dstate"
  show "process_document env vector_store_service ''setup.exe'' file_data document_type st
       = (Inl (Exception ''Error processing document: Unsupported file type: .exe''),
          st\<lparr>temp_files := (temp_name env, file_data) # temp_files st\<rparr>)"
    using process_document_unsupported
            [of "''setup.exe''" env vector_store_service file_data document_type st]
    by (simp add: extension_of_setup_exe)
qed

end
